theory Spec2Isabelle
  imports Complex_Main
begin

section \<open>The computational graph\<close>

text \<open>
  The model graph that \<open>WhisperHelper.auto_mixed_precision\<close> works on, reduced to
  what the function reads: the nodes with their operator kind, name, inputs and
  outputs, the declared graph outputs and the other tensor type annotations, and the
  initializers (constant weight tensors). Weight values are real numbers: every
  finite 32-bit float is one, and infinities and NaN are left out of the model.
\<close>

datatype elem_type = FLOAT | FLOAT16 | OTHER

record node =
  op_type :: string
  name :: string
  input :: "string list"
  outputs :: "string list"

record value_info =
  vi_name :: string
  vi_type :: elem_type

record tensor =
  tensor_name :: string
  data_type :: elem_type
  float_data :: "real list"

record onnx_model =
  nodes :: "node list"
  graph_output :: "value_info list"
  graph_value_info :: "value_info list"
  graph_initializer :: "tensor list"

text \<open>The exceptions the function can end with.\<close>

datatype error = IndexError | AssertionError | ValueError

text \<open>The dictionary of conversion parameters that the function returns.\<close>

record parameters =
  keep_io_types :: "string list"
  op_block_list :: "string list"
  node_block_list :: "string list"
  force_fp16_initializers :: bool

section \<open>Graph queries\<close>

text \<open>
  Modelled from the spec: \<open>OnnxModel.output_name_to_node\<close>, a method of class
  OnnxModel (module onnx_model), which is not among the sources. The spec has the
  graph "look up a node producing a given output identifier"; the model is the
  dictionary from output names to nodes, a later node replacing an earlier one under
  the same name, as filling a dictionary in node order does.
\<close>

definition output_name_to_node :: "onnx_model \<Rightarrow> (string \<rightharpoonup> node)" where
  "output_name_to_node m = (\<lambda>x. find (\<lambda>nd. x \<in> set (outputs nd)) (rev (nodes m)))"

text \<open>
  Modelled from the spec: \<open>OnnxModel.get_initializer\<close>, of the same absent class:
  "look up an initializer by identifier", \<open>None\<close> when the graph has no initializer
  of that name.
\<close>

definition get_initializer :: "onnx_model \<Rightarrow> string \<Rightarrow> tensor option" where
  "get_initializer m x = find (\<lambda>t. tensor_name t = x) (graph_initializer m)"

section \<open>Rounding to 16-bit floating point\<close>

text \<open>
  Modelled from the spec: the round trip "rounding that value to 16-bit precision and
  back to 32-bit" inside \<open>float_to_float16_max_diff\<close> (module float16, not among the
  sources). The 16-bit format is IEEE binary16: 10 fraction bits, normal exponents
  from -14 to 15, subnormals below \<open>2^-14\<close>, largest finite value 65504. Its values
  are the multiples of a spacing that is \<open>2^-24\<close> for magnitudes below \<open>2^-13\<close> and
  doubles with every binade up to 32. Rounding is to the nearest value, a tie going
  to the even multiple. A magnitude that rounds beyond 65504 is taken to 65504: it
  cannot be held in 16 bits, and it is far from its round trip either way.
\<close>

fun float16_spacing :: "nat \<Rightarrow> real \<Rightarrow> real \<Rightarrow> real" where
  "float16_spacing 0 u a = u"
| "float16_spacing (Suc n) u a = (if 2048 * u \<le> a then float16_spacing n (2 * u) a else u)"

definition round_half_even :: "real \<Rightarrow> int" where
  "round_half_even x =
     (let f = \<lfloor>x\<rfloor>; d = x - of_int f
      in if d < 1 / 2 then f else if 1 / 2 < d then f + 1 else if even f then f else f + 1)"

definition float16_round :: "real \<Rightarrow> real" where
  "float16_round x =
     (let a = \<bar>x\<bar>;
          u = float16_spacing 29 (1 / 16777216) a;
          r = of_int (round_half_even (a / u)) * u
      in sgn x * (if 65504 < r then 65504 else r))"



text \<open>
  Modelled from the spec: \<open>float_to_float16_max_diff\<close> of module float16, which is
  not among the sources: "compute, element-wise, the maximum absolute difference
  between each weight value and the value obtained by rounding that value to 16-bit
  precision and back to 32-bit". The differences are never negative and the maximum
  starts from 0. The spec describes the measure for a weight tensor only. The caller
  passes Python's \<open>None\<close> when no input of the node is an initializer; there is no
  tensor to read values from, the helper rejects an argument that is not a tensor,
  and the model ends with \<open>ValueError\<close> there.
\<close>

definition max_abs_diff :: "real list \<Rightarrow> real" where
  "max_abs_diff vs = fold max (map (\<lambda>v. \<bar>v - float16_round v\<bar>) vs) 0"

fun float_to_float16_max_diff :: "tensor option \<Rightarrow> error + real" where
  "float_to_float16_max_diff None = Inl ValueError"
| "float_to_float16_max_diff (Some t) = Inr (max_abs_diff (float_data t))"

section \<open>The converter\<close>

text \<open>
  \<open>OnnxModel.convert_float_to_float16\<close> is a method of the absent class OnnxModel,
  and the function only calls it: with the graph and the parameters it has derived.
  What the method does to the graph is not part of this development. It is an
  argument of the model: any function from a graph and a parameter dictionary to the
  graph it leaves.
\<close>

type_synonym converter = "onnx_model \<Rightarrow> parameters \<Rightarrow> onnx_model"

section \<open>auto_mixed_precision\<close>

text \<open>
  The loop over \<open>node.input\<close> that stops at the first input backed by an initializer;
  when it runs to the end, or has nothing to run over, the variable holds \<open>None\<close>.
\<close>

fun find_initializer :: "onnx_model \<Rightarrow> string list \<Rightarrow> tensor option" where
  "find_initializer m [] = None"
| "find_initializer m (i # rest) =
     (case get_initializer m i of Some t \<Rightarrow> Some t | None \<Rightarrow> find_initializer m rest)"

text \<open>
  The branch on the operator kind of the node that produces the logits: it leaves
  \<open>is_weight_fp16_precision\<close> and \<open>last_matmul_node\<close>. For a MatMul the difference
  is measured on whatever the loop has left, \<open>None\<close> included, and compared with
  the threshold 1e-6.
\<close>

definition detect_fp16_weights :: "onnx_model \<Rightarrow> node \<Rightarrow> error + (bool \<times> node option)" where
  "detect_fp16_weights m nd =
     (if op_type nd = ''MatMul'' then
        (case float_to_float16_max_diff (find_initializer m (input nd)) of
           Inl e \<Rightarrow> Inl e
         | Inr max_diff \<Rightarrow> Inr (max_diff < 1 / 1000000, Some nd))
      else Inr (False, None))"

text \<open>
  The two lists and the dictionary: the output name and the node name are filled in
  only when the weights are not 16-bit and a MatMul node was found.
\<close>

definition make_parameters :: "string \<Rightarrow> string list \<Rightarrow> bool \<Rightarrow> node option \<Rightarrow> parameters" where
  "make_parameters logits_output_name ops is_weight_fp16_precision last_matmul_node =
     (let (keep_io_types, node_block_list) =
            (if \<not> is_weight_fp16_precision \<and> last_matmul_node \<noteq> None
             then ([logits_output_name], [name (the last_matmul_node)])
             else ([], []))
      in \<lparr>keep_io_types = keep_io_types, op_block_list = ops,
          node_block_list = node_block_list,
          force_fp16_initializers = is_weight_fp16_precision\<rparr>)"

text \<open>
  The function. Python returns the dictionary and has changed the graph in place; the
  model returns the dictionary and the graph as the converter leaves it. Indexing
  the empty list of declared outputs and the failed assertion are the errors of the
  first two steps. Logging is not modelled, and with it the operator sets that are
  only logged.
\<close>

definition auto_mixed_precision ::
  "converter \<Rightarrow> onnx_model \<Rightarrow> string list \<Rightarrow> error + (parameters \<times> onnx_model)" where
  "auto_mixed_precision convert_float_to_float16 m ops =
     (case graph_output m of
        [] \<Rightarrow> Inl IndexError
      | out # _ \<Rightarrow>
          (case output_name_to_node m (vi_name out) of
             None \<Rightarrow> Inl AssertionError
           | Some nd \<Rightarrow>
               (case detect_fp16_weights m nd of
                  Inl e \<Rightarrow> Inl e
                | Inr (is_weight_fp16_precision, last_matmul_node) \<Rightarrow>
                    (let p = make_parameters (vi_name out) ops
                               is_weight_fp16_precision last_matmul_node
                     in Inr (p, convert_float_to_float16 m p)))))"

section \<open>Example graphs\<close>

text \<open>The default of the parameter \<open>op_block_list\<close>.\<close>

definition default_op_block_list :: "string list" where
  "default_op_block_list =
     [''SimplifiedLayerNormalization'', ''SkipSimplifiedLayerNormalization'', ''Relu'', ''Add'']"

text \<open>
  A graph with a single MatMul node that produces the output "logits" from a hidden
  state and a weight initializer with the given values.
\<close>

definition matmul_node :: node where
  "matmul_node =
     \<lparr>op_type = ''MatMul'', name = ''MatMul_0'', input = [''hidden'', ''weight''],
      outputs = [''logits'']\<rparr>"

definition logits_matmul_graph :: "real list \<Rightarrow> onnx_model" where
  "logits_matmul_graph ws =
     \<lparr>nodes = [matmul_node],
      graph_output = [\<lparr>vi_name = ''logits'', vi_type = FLOAT\<rparr>],
      graph_value_info = [\<lparr>vi_name = ''hidden'', vi_type = FLOAT\<rparr>],
      graph_initializer = [\<lparr>tensor_name = ''weight'', data_type = FLOAT, float_data = ws\<rparr>]\<rparr>"

text \<open>The same graph with the weight supplied at run time: no initializer at all.\<close>

definition dynamic_weight_graph :: onnx_model where
  "dynamic_weight_graph =
     \<lparr>nodes = [matmul_node],
      graph_output = [\<lparr>vi_name = ''logits'', vi_type = FLOAT\<rparr>],
      graph_value_info =
        [\<lparr>vi_name = ''hidden'', vi_type = FLOAT\<rparr>, \<lparr>vi_name = ''weight'', vi_type = FLOAT\<rparr>],
      graph_initializer = []\<rparr>"

text \<open>A graph whose output "logits" comes from an Add node with a bias initializer.\<close>

definition add_node :: node where
  "add_node =
     \<lparr>op_type = ''Add'', name = ''Add_0'', input = [''hidden'', ''bias''],
      outputs = [''logits'']\<rparr>"

definition add_logits_graph :: onnx_model where
  "add_logits_graph =
     \<lparr>nodes = [add_node],
      graph_output = [\<lparr>vi_name = ''logits'', vi_type = FLOAT\<rparr>],
      graph_value_info = [\<lparr>vi_name = ''hidden'', vi_type = FLOAT\<rparr>],
      graph_initializer =
        [\<lparr>tensor_name = ''bias'', data_type = FLOAT, float_data = [1 / 2, 1 / 4]\<rparr>]\<rparr>"

text \<open>A graph that declares no output, and one whose output no node produces.\<close>

definition no_output_graph :: onnx_model where
  "no_output_graph =
     \<lparr>nodes = [matmul_node], graph_output = [], graph_value_info = [],
      graph_initializer = []\<rparr>"

definition passthrough_graph :: onnx_model where
  "passthrough_graph =
     \<lparr>nodes = [], graph_output = [\<lparr>vi_name = ''logits'', vi_type = FLOAT\<rparr>],
      graph_value_info = [], graph_initializer = []\<rparr>"

text \<open>The two dictionaries that the function can return for a graph with a MatMul.\<close>

definition fp16_parameters :: "string list \<Rightarrow> parameters" where
  "fp16_parameters ops =
     \<lparr>keep_io_types = [], op_block_list = ops, node_block_list = [],
      force_fp16_initializers = True\<rparr>"

definition fp32_logits_parameters :: "string \<Rightarrow> string \<Rightarrow> string list \<Rightarrow> parameters" where
  "fp32_logits_parameters logits_output_name node_name ops =
     \<lparr>keep_io_types = [logits_output_name], op_block_list = ops,
      node_block_list = [node_name], force_fp16_initializers = False\<rparr>"

text \<open>The dictionary returned when the logits do not come from a MatMul.\<close>

definition no_matmul_parameters :: "string list \<Rightarrow> parameters" where
  "no_matmul_parameters ops =
     \<lparr>keep_io_types = [], op_block_list = ops, node_block_list = [],
      force_fp16_initializers = False\<rparr>"

text \<open>
  The theorems below hold for every converter. Where an example needs a particular
  one, it is the converter that leaves the graph as it is.
\<close>

definition no_conversion :: converter where
  "no_conversion m p = m"

section \<open>Facts about the maximum difference\<close>





section \<open>Rounding leaves the 16-bit values where they are\<close>








text \<open>
  The values of the scenario: 0.1 lies between the neighbouring 16-bit values
  819/8192 and 820/8192 and is rounded to the first, about 0.0000244 away; 0.5 is a
  16-bit value.
\<close>

lemma float16_round_tenth: "float16_round (1 / 10) = 819 / 8192"
  by code_simp

lemma float16_round_half: "float16_round (1 / 2) = 1 / 2"
  by code_simp

lemma max_abs_diff_tenths: "max_abs_diff [1 / 10, 2 / 10, 3 / 10] = 1 / 20480"
  by code_simp

section \<open>Evaluation on the example graphs\<close>

lemma add_logits_graph_producer:
  "output_name_to_node add_logits_graph ''logits'' = Some add_node"
  by (simp add: add_logits_graph_def add_node_def output_name_to_node_def)



section \<open>The claims\<close>

text \<open>
  C1 (as amended). For every graph whose first declared output is produced by a node
  that is not a MatMul, the function returns \<open>force_fp16_initializers = False\<close>, an
  empty \<open>node_block_list\<close> and an empty \<open>keep_io_types\<close>, and applies the conversion
  with them: the output name is kept at 32-bit only under the guard
  \<open>last_matmul_node is not None\<close>, which fails here.
\<close>

theorem non_matmul_policy:
  assumes "graph_output m = out # rest"
    and "output_name_to_node m (vi_name out) = Some nd"
    and "op_type nd \<noteq> ''MatMul''"
  shows "auto_mixed_precision convert m ops =
           Inr (no_matmul_parameters ops, convert m (no_matmul_parameters ops))"
  using assms
  by (simp add: auto_mixed_precision_def detect_fp16_weights_def make_parameters_def
      no_matmul_parameters_def Let_def)

theorem non_matmul_policy_witness:
  "op_type add_node \<noteq> ''MatMul'' \<and>
   auto_mixed_precision no_conversion add_logits_graph default_op_block_list =
     Inr (no_matmul_parameters default_op_block_list,
          no_conversion add_logits_graph (no_matmul_parameters default_op_block_list))"
proof -
  have out: "graph_output add_logits_graph = [\<lparr>vi_name = ''logits'', vi_type = FLOAT\<rparr>]"
    by (simp add: add_logits_graph_def)
  have prod: "output_name_to_node add_logits_graph
                (vi_name \<lparr>vi_name = ''logits'', vi_type = FLOAT\<rparr>) = Some add_node"
    by (simp add: add_logits_graph_producer)
  have kind: "op_type add_node \<noteq> ''MatMul''"
    by (simp add: add_node_def)
  from non_matmul_policy [OF out prod kind, where convert = no_conversion] kind
  show ?thesis by simp
qed

text \<open>
  C1 as stated fails: for the graph whose output "logits" comes from an Add node, the
  returned \<open>keep_io_types\<close> is empty and does not contain "logits".
\<close>

theorem non_matmul_keeps_no_output:
  "map_sum id fst (auto_mixed_precision no_conversion add_logits_graph default_op_block_list) =
     Inr (no_matmul_parameters default_op_block_list) \<and>
   ''logits'' \<notin> set (keep_io_types (no_matmul_parameters default_op_block_list))"
  by (simp add: auto_mixed_precision_def detect_fp16_weights_def make_parameters_def
      no_matmul_parameters_def add_logits_graph_def add_node_def output_name_to_node_def
      Let_def)

text \<open>
  C2. The claim: when the first output is produced by a MatMul none of whose inputs
  is an initializer, the function raises nothing and takes the weights as 32-bit. The
  code has no such skip: the loop leaves \<open>None\<close> and the difference is measured on
  it. On the graph whose weight is supplied at run time the function ends with the
  error of that measurement, and returns no parameters.
\<close>

theorem missing_initializer_raises:
  "find_initializer dynamic_weight_graph (input matmul_node) = None \<and>
   auto_mixed_precision convert dynamic_weight_graph default_op_block_list = Inl ValueError"
  by (simp add: auto_mixed_precision_def detect_fp16_weights_def dynamic_weight_graph_def
      matmul_node_def output_name_to_node_def get_initializer_def)

text \<open>
  C3 (as amended). For the graph with a single MatMul producing "logits" and the
  weight values 0.1, 0.2, 0.3, taken as decimals or as the nearest 32-bit floats, the
  function returns \<open>force_fp16_initializers = False\<close>, \<open>node_block_list\<close> with the
  MatMul's name and \<open>keep_io_types = ["logits"]\<close>: none of the three values is a
  16-bit value, and the round trip moves them by up to about 0.0000488.
\<close>

theorem tenths_policy:
  "auto_mixed_precision convert (logits_matmul_graph [1 / 10, 2 / 10, 3 / 10])
       default_op_block_list =
     Inr (fp32_logits_parameters ''logits'' ''MatMul_0'' default_op_block_list,
          convert (logits_matmul_graph [1 / 10, 2 / 10, 3 / 10])
            (fp32_logits_parameters ''logits'' ''MatMul_0'' default_op_block_list)) \<and>
   auto_mixed_precision convert
       (logits_matmul_graph [13421773 / 134217728, 13421773 / 67108864, 5033165 / 16777216])
       default_op_block_list =
     Inr (fp32_logits_parameters ''logits'' ''MatMul_0'' default_op_block_list,
          convert
            (logits_matmul_graph [13421773 / 134217728, 13421773 / 67108864, 5033165 / 16777216])
            (fp32_logits_parameters ''logits'' ''MatMul_0'' default_op_block_list))"
  by code_simp

text \<open>
  C3 as stated fails: on that graph the maximum difference is not below the
  threshold, and the parameters returned are not the 16-bit ones of the claim.
\<close>

theorem tenths_not_fp16:
  "\<not> max_abs_diff [1 / 10, 2 / 10, 3 / 10] < 1 / 1000000 \<and>
   map_sum id fst
     (auto_mixed_precision no_conversion (logits_matmul_graph [1 / 10, 2 / 10, 3 / 10])
        default_op_block_list)
     \<noteq> Inr (fp16_parameters default_op_block_list)"
  by code_simp





text \<open>
  C6. If the graph declares no output, the function ends with the error of indexing
  the empty output list (IndexError; the spec's MissingOutputError), which nothing in
  the function catches; for a graph with a declared output it never ends with that
  error.
\<close>

theorem no_output_raises:
  "(graph_output m = [] \<longrightarrow> auto_mixed_precision convert m ops = Inl IndexError) \<and>
   (graph_output m \<noteq> [] \<longrightarrow> auto_mixed_precision convert m ops \<noteq> Inl IndexError)"
  by (auto simp: auto_mixed_precision_def detect_fp16_weights_def Let_def
      split: list.splits option.splits sum.splits prod.splits if_splits
      elim: float_to_float16_max_diff.elims)

theorem no_output_raises_witness:
  "auto_mixed_precision no_conversion no_output_graph default_op_block_list = Inl IndexError \<and>
   auto_mixed_precision no_conversion passthrough_graph default_op_block_list \<noteq> Inl IndexError"
proof -
  have none: "graph_output no_output_graph = []"
    by (simp add: no_output_graph_def)
  have some: "graph_output passthrough_graph \<noteq> []"
    by (simp add: passthrough_graph_def)
  from no_output_raises [where m = no_output_graph and convert = no_conversion
        and ops = default_op_block_list]
    no_output_raises [where m = passthrough_graph and convert = no_conversion
        and ops = default_op_block_list] none some
  show ?thesis by simp
qed

text \<open>
  C9. If no node produces the first declared output (the name is absent from the
  map from output names to nodes), the function ends with the assertion error, before
  any parameter is derived; if some node produces it, the function never ends with
  the assertion error.
\<close>

theorem unproduced_output_asserts:
  assumes "graph_output m = out # rest"
  shows "(output_name_to_node m (vi_name out) = None \<longrightarrow>
            auto_mixed_precision convert m ops = Inl AssertionError) \<and>
         (output_name_to_node m (vi_name out) \<noteq> None \<longrightarrow>
            auto_mixed_precision convert m ops \<noteq> Inl AssertionError)"
  using assms
  by (auto simp: auto_mixed_precision_def detect_fp16_weights_def Let_def
      split: list.splits option.splits sum.splits prod.splits if_splits
      elim: float_to_float16_max_diff.elims)

theorem unproduced_output_asserts_witness:
  "output_name_to_node passthrough_graph ''logits'' = None \<and>
   auto_mixed_precision no_conversion passthrough_graph default_op_block_list = Inl AssertionError \<and>
   output_name_to_node add_logits_graph ''logits'' = Some add_node \<and>
   auto_mixed_precision no_conversion add_logits_graph default_op_block_list \<noteq> Inl AssertionError"
proof -
  have out1: "graph_output passthrough_graph = [\<lparr>vi_name = ''logits'', vi_type = FLOAT\<rparr>]"
    by (simp add: passthrough_graph_def)
  have none: "output_name_to_node passthrough_graph ''logits'' = None"
    by (simp add: passthrough_graph_def output_name_to_node_def)
  have out2: "graph_output add_logits_graph = [\<lparr>vi_name = ''logits'', vi_type = FLOAT\<rparr>]"
    by (simp add: add_logits_graph_def)
  have some: "output_name_to_node add_logits_graph ''logits'' = Some add_node"
    by (rule add_logits_graph_producer)
  from unproduced_output_asserts [OF out1, where convert = no_conversion
        and ops = default_op_block_list]
    unproduced_output_asserts [OF out2, where convert = no_conversion
        and ops = default_op_block_list] none some
  show ?thesis by simp
qed

text \<open>
  C10. In every dictionary that the function returns, \<open>force_fp16_initializers\<close>
  implies that \<open>keep_io_types\<close> and \<open>node_block_list\<close> are both empty, and
  \<open>keep_io_types\<close> is non-empty exactly when \<open>node_block_list\<close> is.
\<close>

theorem parameters_consistent:
  assumes "auto_mixed_precision convert m ops = Inr (p, m')"
  shows "(force_fp16_initializers p \<longrightarrow> keep_io_types p = [] \<and> node_block_list p = []) \<and>
         (keep_io_types p \<noteq> [] \<longleftrightarrow> node_block_list p \<noteq> [])"
  using assms
  by (auto simp: auto_mixed_precision_def detect_fp16_weights_def make_parameters_def Let_def
      split: list.splits option.splits sum.splits prod.splits if_splits)

theorem parameters_consistent_witness:
  "auto_mixed_precision no_conversion (logits_matmul_graph [13421773 / 134217728]) default_op_block_list =
     Inr (fp32_logits_parameters ''logits'' ''MatMul_0'' default_op_block_list,
          no_conversion (logits_matmul_graph [13421773 / 134217728])
            (fp32_logits_parameters ''logits'' ''MatMul_0'' default_op_block_list)) \<and>
   keep_io_types (fp32_logits_parameters ''logits'' ''MatMul_0'' default_op_block_list) \<noteq> [] \<and>
   node_block_list (fp32_logits_parameters ''logits'' ''MatMul_0'' default_op_block_list) \<noteq> []"
proof -
  have run: "auto_mixed_precision no_conversion (logits_matmul_graph [13421773 / 134217728])
               default_op_block_list =
               Inr (fp32_logits_parameters ''logits'' ''MatMul_0'' default_op_block_list,
                    no_conversion (logits_matmul_graph [13421773 / 134217728])
                      (fp32_logits_parameters ''logits'' ''MatMul_0'' default_op_block_list))"
    by code_simp
  have kept: "keep_io_types (fp32_logits_parameters ''logits'' ''MatMul_0'' default_op_block_list)
                \<noteq> []"
    by (simp add: fp32_logits_parameters_def)
  from parameters_consistent [OF run] kept run show ?thesis by simp
qed

end
